theory Spec2Isabelle
  imports Main
begin

section \<open>JSON values, request bodies and outcomes\<close>

text \<open>
  Request and response bodies are JSON. A request body (\<^verbatim>\<open>request.json\<close>) is a
  Python dict, kept as an association list; \<^verbatim>\<open>d.get(k)\<close> gives \<^verbatim>\<open>None\<close>
  (here \<open>JNull\<close>) for a key that is not there.
\<close>

datatype json =
    JNull
  | JBool bool
  | JNum int
  | JStr string
  | JArr "json list"
  | JObj "(string \<times> json) list"

type_synonym dict = "(string \<times> json) list"

definition dict_get :: "dict \<Rightarrow> string \<Rightarrow> json" where
  "dict_get d k = (case map_of d k of None \<Rightarrow> JNull | Some v \<Rightarrow> v)"

definition dict_get_default :: "dict \<Rightarrow> string \<Rightarrow> json \<Rightarrow> json" where
  "dict_get_default d k dflt = (case map_of d k of None \<Rightarrow> dflt | Some v \<Rightarrow> v)"

datatype exn =
    ValueError string
  | TypeError string
  | IntegrityError string
  | OperationalError string
  | OverflowError string
  | InterfaceError string
  | OtherError string

text \<open>
  A handler either returns a response (status code and JSON body) or lets an exception
  escape to the framework.
\<close>

datatype outcome = Response nat json | Raised exn

fun status_code :: "outcome \<Rightarrow> nat option" where
  "status_code (Response st b) = Some st"
| "status_code (Raised e) = None"

section \<open>Data model\<close>

text \<open>
  Modelled from the spec: the classes \<^verbatim>\<open>User\<close>, \<^verbatim>\<open>Order\<close>, \<^verbatim>\<open>Feedback\<close>,
  \<^verbatim>\<open>Parcel\<close> and \<^verbatim>\<open>Profile\<close> of \<^verbatim>\<open>models.py\<close>, which is not part of the
  sources at hand. The fields are those of section 3 of the specification and of the
  constructor calls in \<^verbatim>\<open>app.py\<close>. An object holds the Python values assigned to its
  attributes; the primary key \<^verbatim>\<open>id\<close> (here \<open>id_col\<close>) is \<^verbatim>\<open>None\<close> until the row
  is inserted. What the columns make of these values when a row is written is part of the
  session below.
\<close>

record row =
  id_col :: json

record User = row +
  email :: json
  username :: json
  role :: json
  password :: json

record Order = row +
  pickup_address :: json
  delivery_address :: json
  status :: json
  user_id :: json

record Feedback = row +
  rating :: json
  comments :: json
  user_id :: json

record Parcel = row +
  description :: json
  weight :: json
  dimensions :: json
  order_id :: json

record Profile = row +
  user_id :: json
  bio :: json
  profile_picture :: json

record database =
  users :: "User list"
  orders :: "Order list"
  feedbacks :: "Feedback list"
  parcels :: "Parcel list"
  profiles :: "Profile list"

definition empty_db :: database where
  "empty_db = \<lparr>users = [], orders = [], feedbacks = [], parcels = [], profiles = []\<rparr>"

section \<open>Libraries\<close>

text \<open>
  Times are microseconds since the epoch (the resolution of \<^verbatim>\<open>datetime\<close>), assumed to
  stay within the range of \<^verbatim>\<open>datetime\<close>. \<open>timedelta days hours\<close> is
  \<^verbatim>\<open>datetime.timedelta(days=..., hours=...)\<close>.
\<close>

type_synonym datetime = int

definition timedelta :: "int \<Rightarrow> int \<Rightarrow> int" where
  "timedelta days hours = (days * 86400 + hours * 3600) * 1000000"

record jwt_payload =
  identity :: json
  exp :: datetime

text \<open>
  The libraries the handlers call are parameters of the model; a call that raises returns
  \<open>Inl\<close>.
  \<^item> \<open>generate_password_hash salt pw\<close>: \<^verbatim>\<open>bcrypt.generate_password_hash(pw).decode('utf-8')\<close>,
    with the salt the library draws for this call;
  \<^item> \<open>check_password_hash h pw\<close>: \<^verbatim>\<open>bcrypt.check_password_hash(h, pw)\<close>;
  \<^item> \<open>jwt_encode payload key algorithm\<close>: \<^verbatim>\<open>jwt.encode(payload, key, algorithm=...)\<close>;
  \<^item> \<open>py_str\<close>: Python's \<^verbatim>\<open>str\<close> on a value that is not a string;
  \<^item> \<open>str_error\<close>: the text of the framework's HTTP error of a given status;
  \<^item> \<open>sqlite_value table column v\<close>: what that column reads back after the value \<open>v\<close>
    was bound to it, or the exception of the driver, where the model below does not fix
    it (the declarations of the columns are in \<^verbatim>\<open>models.py\<close>);
  \<^item> the \<^verbatim>\<open>to_dict\<close> methods of the five model classes (\<^verbatim>\<open>models.py\<close>).
\<close>

record env =
  generate_password_hash :: "string \<Rightarrow> json \<Rightarrow> exn + string"
  check_password_hash :: "json \<Rightarrow> json \<Rightarrow> exn + bool"
  jwt_encode :: "jwt_payload \<Rightarrow> string \<Rightarrow> string \<Rightarrow> exn + string"
  py_str :: "json \<Rightarrow> string"
  str_error :: "nat \<Rightarrow> string"
  sqlite_value :: "string \<Rightarrow> string \<Rightarrow> json \<Rightarrow> exn + json"
  user_to_dict :: "User \<Rightarrow> json"
  order_to_dict :: "Order \<Rightarrow> json"
  feedback_to_dict :: "Feedback \<Rightarrow> json"
  parcel_to_dict :: "Parcel \<Rightarrow> json"
  profile_to_dict :: "Profile \<Rightarrow> json"

definition SECRET_KEY :: string where
  "SECRET_KEY = ''9d970c5fb1d04ea380828d9c491448ce''"

section \<open>The database session\<close>

text \<open>
  Modelled from the spec: \<^verbatim>\<open>db.session\<close> of \<^verbatim>\<open>database.py\<close> (an SQLAlchemy session
  on SQLite, by \<^verbatim>\<open>SQLALCHEMY_DATABASE_URI\<close>). \<open>store\<close> is the committed database,
  \<open>txn\<close> the rows as the open transaction has them (with the updates and deletions it
  made), \<open>pending\<close> the objects added and not yet inserted.
\<close>

record session =
  store :: database
  txn :: database
  pending :: database

definition fresh_session :: "database \<Rightarrow> session" where
  "fresh_session d = \<lparr>store = d, txn = d, pending = empty_db\<rparr>"

text \<open>
  \<^verbatim>\<open>query.get(id)\<close> binds the id to the statement: SQLite integers have 64 bits, and
  the driver raises \<^verbatim>\<open>OverflowError\<close> for a Python integer outside that range.
\<close>

definition int64 :: "int \<Rightarrow> bool" where
  "int64 n = (- (2 ^ 63) \<le> n \<and> n < 2 ^ 63)"

definition query_get :: "int \<Rightarrow> 'a row_scheme list \<Rightarrow> exn + 'a row_scheme option" where
  "query_get i rows =
     (if int64 i then Inr (find (\<lambda>r. id_col r = JNum i) rows)
      else Inl (OverflowError ''Python int too large to convert to SQLite INTEGER''))"

definition filter_by_email_first :: "json \<Rightarrow> User list \<Rightarrow> User option" where
  "filter_by_email_first e rows = find (\<lambda>u. email u = e) rows"

definition session_add_user :: "User \<Rightarrow> session \<Rightarrow> session" where
  "session_add_user u s = s\<lparr>pending := (pending s)\<lparr>users := users (pending s) @ [u]\<rparr>\<rparr>"

definition session_add_order :: "Order \<Rightarrow> session \<Rightarrow> session" where
  "session_add_order x s = s\<lparr>pending := (pending s)\<lparr>orders := orders (pending s) @ [x]\<rparr>\<rparr>"

definition session_add_feedback :: "Feedback \<Rightarrow> session \<Rightarrow> session" where
  "session_add_feedback x s =
     s\<lparr>pending := (pending s)\<lparr>feedbacks := feedbacks (pending s) @ [x]\<rparr>\<rparr>"

definition session_add_parcel :: "Parcel \<Rightarrow> session \<Rightarrow> session" where
  "session_add_parcel x s = s\<lparr>pending := (pending s)\<lparr>parcels := parcels (pending s) @ [x]\<rparr>\<rparr>"

definition session_add_profile :: "Profile \<Rightarrow> session \<Rightarrow> session" where
  "session_add_profile x s =
     s\<lparr>pending := (pending s)\<lparr>profiles := profiles (pending s) @ [x]\<rparr>\<rparr>"

text \<open>
  Writing a row binds the values of the object to the statement, and what is read
  afterwards is what the column made of them.

  Modelled from the spec: the columns of \<^verbatim>\<open>User\<close>. By section 3 of the specification
  \<^verbatim>\<open>email\<close>, \<^verbatim>\<open>username\<close>, \<^verbatim>\<open>role\<close> and \<^verbatim>\<open>password\<close> hold text, and \<^verbatim>\<open>role\<close> has the
  default \<^verbatim>\<open>customer\<close>: a text column reads a string and NULL back as they were bound,
  and an INSERT leaves out an attribute that is \<^verbatim>\<open>None\<close>, so that the default of the
  column applies. The specification names no type for the columns of the other classes:
  what they read back is \<open>sqlite_value\<close>. A key is a 64-bit integer. An UPDATE binds only
  the attributes whose value changed.
\<close>

definition and_then :: "'e + 'a \<Rightarrow> ('a \<Rightarrow> 'e + 'b) \<Rightarrow> 'e + 'b" where
  "and_then r f = (case r of Inl e \<Rightarrow> Inl e | Inr x \<Rightarrow> f x)"

definition bind_text :: "env \<Rightarrow> string \<Rightarrow> json \<Rightarrow> exn + json" where
  "bind_text env col v =
     (case v of
        JNull \<Rightarrow> Inr JNull
      | JStr t \<Rightarrow> Inr (JStr t)
      | _ \<Rightarrow> sqlite_value env ''users'' col v)"

definition bind_key :: "env \<Rightarrow> string \<Rightarrow> json \<Rightarrow> exn + json" where
  "bind_key env table v =
     (case v of
        JNum n \<Rightarrow>
          if int64 n then Inr (JNum n)
          else Inl (OverflowError ''Python int too large to convert to SQLite INTEGER'')
      | _ \<Rightarrow> sqlite_value env table ''id'' v)"

definition written :: "json \<Rightarrow> json \<Rightarrow> (json \<Rightarrow> exn + json) \<Rightarrow> exn + json" where
  "written old new bind = (if new = old then Inr old else bind new)"

definition new_key :: "env \<Rightarrow> string \<Rightarrow> json \<Rightarrow> exn + json" where
  "new_key env table v = (if v = JNull then Inr JNull else bind_key env table v)"

definition insert_user :: "env \<Rightarrow> User \<Rightarrow> exn + User" where
  "insert_user env u =
     and_then (new_key env ''users'' (id_col u)) (\<lambda>k.
     and_then (bind_text env ''email'' (email u)) (\<lambda>e.
     and_then (bind_text env ''username'' (username u)) (\<lambda>n.
     and_then (bind_text env ''role'' (if role u = JNull then JStr ''customer'' else role u)) (\<lambda>r.
     and_then (bind_text env ''password'' (password u)) (\<lambda>p.
     Inr \<lparr>id_col = k, email = e, username = n, role = r, password = p\<rparr>)))))"

definition update_user :: "env \<Rightarrow> User \<Rightarrow> User \<Rightarrow> exn + User" where
  "update_user env old new =
     and_then (written (id_col old) (id_col new) (bind_key env ''users'')) (\<lambda>k.
     and_then (written (email old) (email new) (bind_text env ''email'')) (\<lambda>e.
     and_then (written (username old) (username new) (bind_text env ''username'')) (\<lambda>n.
     and_then (written (role old) (role new) (bind_text env ''role'')) (\<lambda>r.
     and_then (written (password old) (password new) (bind_text env ''password'')) (\<lambda>p.
     Inr \<lparr>id_col = k, email = e, username = n, role = r, password = p\<rparr>)))))"

definition insert_order :: "env \<Rightarrow> Order \<Rightarrow> exn + Order" where
  "insert_order env x =
     and_then (new_key env ''orders'' (id_col x)) (\<lambda>k.
     and_then (sqlite_value env ''orders'' ''pickup_address'' (pickup_address x)) (\<lambda>p.
     and_then (sqlite_value env ''orders'' ''delivery_address'' (delivery_address x)) (\<lambda>d.
     and_then (sqlite_value env ''orders'' ''status'' (status x)) (\<lambda>t.
     and_then (sqlite_value env ''orders'' ''user_id'' (Order.user_id x)) (\<lambda>u.
     Inr \<lparr>id_col = k, pickup_address = p, delivery_address = d, status = t, user_id = u\<rparr>)))))"

definition update_order :: "env \<Rightarrow> Order \<Rightarrow> Order \<Rightarrow> exn + Order" where
  "update_order env old new =
     and_then (written (id_col old) (id_col new) (bind_key env ''orders'')) (\<lambda>k.
     and_then (written (pickup_address old) (pickup_address new)
                 (sqlite_value env ''orders'' ''pickup_address'')) (\<lambda>p.
     and_then (written (delivery_address old) (delivery_address new)
                 (sqlite_value env ''orders'' ''delivery_address'')) (\<lambda>d.
     and_then (written (status old) (status new) (sqlite_value env ''orders'' ''status'')) (\<lambda>t.
     and_then (written (Order.user_id old) (Order.user_id new)
                 (sqlite_value env ''orders'' ''user_id'')) (\<lambda>u.
     Inr \<lparr>id_col = k, pickup_address = p, delivery_address = d, status = t, user_id = u\<rparr>)))))"

definition insert_feedback :: "env \<Rightarrow> Feedback \<Rightarrow> exn + Feedback" where
  "insert_feedback env x =
     and_then (new_key env ''feedbacks'' (id_col x)) (\<lambda>k.
     and_then (sqlite_value env ''feedbacks'' ''rating'' (rating x)) (\<lambda>r.
     and_then (sqlite_value env ''feedbacks'' ''comments'' (comments x)) (\<lambda>c.
     and_then (sqlite_value env ''feedbacks'' ''user_id'' (Feedback.user_id x)) (\<lambda>u.
     Inr \<lparr>id_col = k, rating = r, comments = c, user_id = u\<rparr>))))"

definition insert_parcel :: "env \<Rightarrow> Parcel \<Rightarrow> exn + Parcel" where
  "insert_parcel env x =
     and_then (new_key env ''parcels'' (id_col x)) (\<lambda>k.
     and_then (sqlite_value env ''parcels'' ''description'' (description x)) (\<lambda>d.
     and_then (sqlite_value env ''parcels'' ''weight'' (weight x)) (\<lambda>w.
     and_then (sqlite_value env ''parcels'' ''dimensions'' (dimensions x)) (\<lambda>m.
     and_then (sqlite_value env ''parcels'' ''order_id'' (order_id x)) (\<lambda>oid.
     Inr \<lparr>id_col = k, description = d, weight = w, dimensions = m, order_id = oid\<rparr>)))))"

definition insert_profile :: "env \<Rightarrow> Profile \<Rightarrow> exn + Profile" where
  "insert_profile env x =
     and_then (new_key env ''profiles'' (id_col x)) (\<lambda>k.
     and_then (sqlite_value env ''profiles'' ''user_id'' (Profile.user_id x)) (\<lambda>u.
     and_then (sqlite_value env ''profiles'' ''bio'' (bio x)) (\<lambda>b.
     and_then (sqlite_value env ''profiles'' ''profile_picture'' (profile_picture x)) (\<lambda>p.
     Inr \<lparr>id_col = k, user_id = u, bio = b, profile_picture = p\<rparr>))))"

text \<open>
  An UPDATE writes the row in the place of the one the object was loaded from
  (\<^verbatim>\<open>UPDATE ... WHERE id = ?\<close> with the key it was loaded under); a DELETE removes the
  rows of that key.
\<close>

definition replace_row :: "json \<Rightarrow> 'a row_scheme \<Rightarrow> 'a row_scheme list \<Rightarrow> 'a row_scheme list" where
  "replace_row key r' rows = map (\<lambda>r. if id_col r = key then r' else r) rows"

definition session_modify_user :: "json \<Rightarrow> User \<Rightarrow> session \<Rightarrow> session" where
  "session_modify_user key u s = s\<lparr>txn := (txn s)\<lparr>users := replace_row key u (users (txn s))\<rparr>\<rparr>"

definition session_modify_order :: "json \<Rightarrow> Order \<Rightarrow> session \<Rightarrow> session" where
  "session_modify_order key x s =
     s\<lparr>txn := (txn s)\<lparr>orders := replace_row key x (orders (txn s))\<rparr>\<rparr>"

definition delete_row :: "json \<Rightarrow> 'a row_scheme list \<Rightarrow> 'a row_scheme list" where
  "delete_row key rows = filter (\<lambda>r. id_col r \<noteq> key) rows"

definition session_delete_user :: "User \<Rightarrow> session \<Rightarrow> session" where
  "session_delete_user u s =
     s\<lparr>txn := (txn s)\<lparr>users := delete_row (id_col u) (users (txn s))\<rparr>\<rparr>"

definition session_delete_order :: "Order \<Rightarrow> session \<Rightarrow> session" where
  "session_delete_order x s =
     s\<lparr>txn := (txn s)\<lparr>orders := delete_row (id_col x) (orders (txn s))\<rparr>\<rparr>"

text \<open>
  Flushing inserts the pending objects in the order they were added. A row without a key
  gets the largest integer key of the table plus one (1 in an empty table), as SQLite
  does for an integer primary key.
\<close>

definition int_ids :: "'a row_scheme list \<Rightarrow> int list" where
  "int_ids rows = concat (map (\<lambda>r. case id_col r of JNum n \<Rightarrow> [n] | _ \<Rightarrow> []) rows)"

definition next_id :: "'a row_scheme list \<Rightarrow> int" where
  "next_id rows = (case int_ids rows of [] \<Rightarrow> 1 | n # ns \<Rightarrow> fold max ns n + 1)"

fun insert_rows ::
  "('a row_scheme \<Rightarrow> exn + 'a row_scheme) \<Rightarrow> 'a row_scheme list \<Rightarrow> 'a row_scheme list \<Rightarrow>
     exn + 'a row_scheme list" where
  "insert_rows ins table [] = Inr table"
| "insert_rows ins table (r # rs) =
     (case ins r of
        Inl e \<Rightarrow> Inl e
      | Inr w \<Rightarrow>
          insert_rows ins
            (table @ [if id_col w = JNull then w\<lparr>id_col := JNum (next_id table)\<rparr> else w]) rs)"

definition flush :: "env \<Rightarrow> session \<Rightarrow> exn + database" where
  "flush env s =
     and_then (insert_rows (insert_user env) (users (txn s)) (users (pending s))) (\<lambda>us.
     and_then (insert_rows (insert_order env) (orders (txn s)) (orders (pending s))) (\<lambda>os.
     and_then (insert_rows (insert_feedback env) (feedbacks (txn s)) (feedbacks (pending s))) (\<lambda>fs.
     and_then (insert_rows (insert_parcel env) (parcels (txn s)) (parcels (pending s))) (\<lambda>ps.
     and_then (insert_rows (insert_profile env) (profiles (txn s)) (profiles (pending s))) (\<lambda>rs.
     Inr \<lparr>users = us, orders = os, feedbacks = fs, parcels = ps, profiles = rs\<rparr>)))))"

text \<open>
  Modelled from the spec: the constraints of the schema. Every table has an integer
  primary key, and section 3 of the specification makes \<^verbatim>\<open>email\<close> unique (SQL lets
  several rows have a NULL there). No other constraint is specified.
\<close>

fun is_int :: "json \<Rightarrow> bool" where
  "is_int (JNum n) = True"
| "is_int _ = False"

definition primary_key_ok :: "'a row_scheme list \<Rightarrow> bool" where
  "primary_key_ok rows = (list_all (\<lambda>r. is_int (id_col r)) rows \<and> distinct (map id_col rows))"

definition unique_email :: "User list \<Rightarrow> bool" where
  "unique_email rows = distinct (filter (\<lambda>e. e \<noteq> JNull) (map email rows))"

definition constraints_ok :: "database \<Rightarrow> bool" where
  "constraints_ok d =
     (primary_key_ok (users d) \<and> unique_email (users d) \<and> primary_key_ok (orders d) \<and>
      primary_key_ok (feedbacks d) \<and> primary_key_ok (parcels d) \<and> primary_key_ok (profiles d))"

text \<open>
  \<^verbatim>\<open>db.session.commit()\<close>: \<open>fault\<close> is a failure of the storage itself (given from
  outside, \<open>None\<close> when the storage works); otherwise the commit fails when a value cannot
  be bound or the flushed rows break a constraint. A failed commit raises and leaves the
  session as it was; \<^verbatim>\<open>db.session.rollback()\<close> drops everything that is not committed.
\<close>

definition session_commit :: "env \<Rightarrow> exn option \<Rightarrow> session \<Rightarrow> exn + session" where
  "session_commit env fault s =
     (case fault of
        Some e \<Rightarrow> Inl e
      | None \<Rightarrow>
          (case flush env s of
             Inl e \<Rightarrow> Inl e
           | Inr d \<Rightarrow>
               if constraints_ok d then Inr \<lparr>store = d, txn = d, pending = empty_db\<rparr>
               else Inl (IntegrityError ''constraint failed'')))"

definition session_rollback :: "session \<Rightarrow> session" where
  "session_rollback s = \<lparr>store = store s, txn = store s, pending = empty_db\<rparr>"

section \<open>Parsers\<close>

text \<open>
  An argument of a \<^verbatim>\<open>reqparse.RequestParser\<close>, all of \<^verbatim>\<open>type=str\<close>. The parser
  reads the JSON body (the query string and the form, which it reads too, are taken to be
  empty) into a multi-dict, where a list counts as that many values of its key. The first
  value of a key is converted (\<^verbatim>\<open>null\<close> stays \<^verbatim>\<open>None\<close>); a key without a value gives
  the default, or the error 400 with the help text when the argument is required. The first
  argument that fails ends the parsing.
\<close>

record argument =
  name :: string
  required :: bool
  default_value :: json
  help_text :: string

definition register_args :: "argument list" where
  "register_args =
     [\<lparr>name = ''email'', required = True, default_value = JNull,
        help_text = ''Email address is required''\<rparr>,
      \<lparr>name = ''password'', required = True, default_value = JNull,
        help_text = ''Password is required''\<rparr>,
      \<lparr>name = ''username'', required = True, default_value = JNull,
        help_text = ''Username is required''\<rparr>,
      \<lparr>name = ''role'', required = False, default_value = JStr ''customer'',
        help_text = ''Role of the user''\<rparr>]"

definition login_args :: "argument list" where
  "login_args =
     [\<lparr>name = ''email'', required = True, default_value = JNull,
        help_text = ''Email address is required''\<rparr>,
      \<lparr>name = ''password'', required = True, default_value = JNull,
        help_text = ''Password is required''\<rparr>]"

definition convert :: "env \<Rightarrow> json \<Rightarrow> json" where
  "convert env v = (case v of JNull \<Rightarrow> JNull | JStr s \<Rightarrow> JStr s | _ \<Rightarrow> JStr (py_str env v))"

definition source_values :: "dict \<Rightarrow> string \<Rightarrow> json list" where
  "source_values body k =
     (case map_of body k of
        None \<Rightarrow> []
      | Some (JArr vs) \<Rightarrow> vs
      | Some v \<Rightarrow> [v])"

definition parse_argument :: "env \<Rightarrow> argument \<Rightarrow> dict \<Rightarrow> string + json" where
  "parse_argument env a body =
     (case map (convert env) (source_values body (name a)) of
        [] \<Rightarrow> if required a then Inl (help_text a) else Inr (default_value a)
      | r # _ \<Rightarrow> Inr r)"

fun parse_args :: "env \<Rightarrow> argument list \<Rightarrow> dict \<Rightarrow> outcome + dict" where
  "parse_args env [] body = Inr []"
| "parse_args env (a # as) body =
     (case parse_argument env a body of
        Inl msg \<Rightarrow> Inl (Response 400 (JObj [(''message'', JObj [(name a, JStr msg)])]))
      | Inr v \<Rightarrow>
          (case parse_args env as body of
             Inl bad \<Rightarrow> Inl bad
           | Inr d \<Rightarrow> Inr ((name a, v) # d)))"

section \<open>Signup and login\<close>

text \<open>
  \<^verbatim>\<open>Signup.post\<close>. The parsed arguments always hold the four keys of
  \<open>register_args\<close>, so \<^verbatim>\<open>data['email']\<close> never raises. The hash is computed before the
  \<^verbatim>\<open>try\<close> block: an exception of the hasher escapes the handler. Inside the block a
  failing commit is caught, the session rolled back and the fixed message returned.
\<close>

definition Signup_post :: "env \<Rightarrow> string \<Rightarrow> exn option \<Rightarrow> dict \<Rightarrow> session \<Rightarrow> outcome \<times> session" where
  "Signup_post env salt fault body s =
     (case parse_args env register_args body of
        Inl bad \<Rightarrow> (bad, s)
      | Inr data \<Rightarrow>
          (let role = dict_get_default data ''role'' (JStr ''customer'') in
           case generate_password_hash env salt (dict_get data ''password'') of
             Inl e \<Rightarrow> (Raised e, s)
           | Inr hashed_password \<Rightarrow>
               (let new_user = \<lparr>id_col = JNull, email = dict_get data ''email'',
                                 username = dict_get data ''username'', role = role,
                                 password = JStr hashed_password\<rparr>;
                    s1 = session_add_user new_user s
                in case session_commit env fault s1 of
                     Inr s2 \<Rightarrow> (Response 201 (JObj [(''msg'', JStr ''User created successfully'')]), s2)
                   | Inl e \<Rightarrow>
                       (Response 500 (JObj [(''msg'', JStr ''An error occurred while creating the user'')]),
                        session_rollback s1))))"

text \<open>
  \<^verbatim>\<open>Login.post\<close>. \<open>now1\<close> and \<open>now2\<close> are the two readings of
  \<^verbatim>\<open>datetime.datetime.utcnow()\<close>, one for each token.
\<close>

definition Login_post :: "env \<Rightarrow> datetime \<Rightarrow> datetime \<Rightarrow> dict \<Rightarrow> session \<Rightarrow> outcome \<times> session" where
  "Login_post env now1 now2 body s =
     (case parse_args env login_args body of
        Inl bad \<Rightarrow> (bad, s)
      | Inr data \<Rightarrow>
          (let email = dict_get data ''email'';
               password = dict_get data ''password''
           in case filter_by_email_first email (users (txn s)) of
                None \<Rightarrow> (Response 404 (JObj [(''msg'', JStr ''User does not exist in our database'')]), s)
              | Some user \<Rightarrow>
                  (case check_password_hash env (User.password user) password of
                     Inl e \<Rightarrow> (Raised e, s)
                   | Inr False \<Rightarrow> (Response 401 (JObj [(''msg'', JStr ''Password is incorrect!'')]), s)
                   | Inr True \<Rightarrow>
                       (case jwt_encode env \<lparr>identity = id_col user, exp = now1 + timedelta 0 1\<rparr>
                               SECRET_KEY ''HS256'' of
                          Inl e \<Rightarrow>
                            (Response 500 (JObj [(''msg'', JStr ''An error occurred while generating tokens'')]), s)
                        | Inr token \<Rightarrow>
                            (case jwt_encode env \<lparr>identity = id_col user, exp = now2 + timedelta 30 0\<rparr>
                                    SECRET_KEY ''HS256'' of
                               Inl e \<Rightarrow>
                                 (Response 500
                                    (JObj [(''msg'', JStr ''An error occurred while generating tokens'')]), s)
                             | Inr refresh_token \<Rightarrow>
                                 (Response 200
                                    (JObj [(''token'', JStr token),
                                           (''refresh_token'', JStr refresh_token)]), s))))))"

section \<open>Resource handlers\<close>

text \<open>
  After a commit an object is read again from its row: for a new object the last row of
  its table, for an updated one the row the UPDATE wrote. An exception of a query or of a
  commit is not caught by these handlers.
\<close>

definition Users_get :: "env \<Rightarrow> session \<Rightarrow> outcome \<times> session" where
  "Users_get env s =
     (let users_list = map (user_to_dict env) (users (txn s))
      in (Response 200 (JObj [(''count'', JNum (int (length users_list))), (''users'', JArr users_list)]), s))"

definition Users_post :: "env \<Rightarrow> exn option \<Rightarrow> dict \<Rightarrow> session \<Rightarrow> outcome \<times> session" where
  "Users_post env fault body s =
     (let new_user = \<lparr>id_col = JNull, email = dict_get body ''email'',
                       username = dict_get body ''username'', role = dict_get body ''role'',
                       password = dict_get body ''password''\<rparr>;
          s1 = session_add_user new_user s
      in case session_commit env fault s1 of
           Inl e \<Rightarrow> (Raised e, s1)
         | Inr s2 \<Rightarrow> (Response 201 (user_to_dict env (last (users (txn s2)))), s2))"

text \<open>
  \<^verbatim>\<open>setattr(user, attr, value)\<close>: a column name sets the attribute of the column; any other
  name sets a plain attribute of the Python object, which is not stored. The flush of the
  commit then issues the UPDATE (\<open>update_user\<close>), which raises when a value cannot be
  bound.
\<close>

definition setattr_user :: "User \<Rightarrow> string \<Rightarrow> json \<Rightarrow> User" where
  "setattr_user u attr v =
     (if attr = ''id'' then u\<lparr>id_col := v\<rparr>
      else if attr = ''email'' then u\<lparr>email := v\<rparr>
      else if attr = ''username'' then u\<lparr>username := v\<rparr>
      else if attr = ''role'' then u\<lparr>role := v\<rparr>
      else if attr = ''password'' then u\<lparr>password := v\<rparr>
      else u)"

definition setattr_order :: "Order \<Rightarrow> string \<Rightarrow> json \<Rightarrow> Order" where
  "setattr_order x attr v =
     (if attr = ''id'' then x\<lparr>id_col := v\<rparr>
      else if attr = ''pickup_address'' then x\<lparr>pickup_address := v\<rparr>
      else if attr = ''delivery_address'' then x\<lparr>delivery_address := v\<rparr>
      else if attr = ''status'' then x\<lparr>status := v\<rparr>
      else if attr = ''user_id'' then x\<lparr>Order.user_id := v\<rparr>
      else x)"

definition UserByID_get :: "env \<Rightarrow> int \<Rightarrow> session \<Rightarrow> outcome \<times> session" where
  "UserByID_get env i s =
     (case query_get i (users (txn s)) of
        Inl e \<Rightarrow> (Raised e, s)
      | Inr None \<Rightarrow> (Response 404 (JObj [(''message'', JStr ''User not found'')]), s)
      | Inr (Some user) \<Rightarrow> (Response 200 (user_to_dict env user), s))"

definition UserByID_patch :: "env \<Rightarrow> exn option \<Rightarrow> int \<Rightarrow> dict \<Rightarrow> session \<Rightarrow> outcome \<times> session" where
  "UserByID_patch env fault i body s =
     (case query_get i (users (txn s)) of
        Inl e \<Rightarrow> (Raised e, s)
      | Inr None \<Rightarrow> (Response 404 (JObj [(''message'', JStr ''User not found'')]), s)
      | Inr (Some user) \<Rightarrow>
          (let user' = fold (\<lambda>attr u. setattr_user u attr (dict_get body attr)) (map fst body) user
           in case update_user env user user' of
                Inl e \<Rightarrow> (Raised e, s)
              | Inr row \<Rightarrow>
                  (let s1 = session_modify_user (JNum i) row s
                   in case session_commit env fault s1 of
                        Inl e \<Rightarrow> (Raised e, s1)
                      | Inr s2 \<Rightarrow> (Response 200 (user_to_dict env row), s2))))"

definition UserByID_delete :: "env \<Rightarrow> exn option \<Rightarrow> int \<Rightarrow> session \<Rightarrow> outcome \<times> session" where
  "UserByID_delete env fault i s =
     (case query_get i (users (txn s)) of
        Inl e \<Rightarrow> (Raised e, s)
      | Inr None \<Rightarrow> (Response 404 (JObj [(''message'', JStr ''User not found'')]), s)
      | Inr (Some user) \<Rightarrow>
          (let s1 = session_delete_user user s
           in case session_commit env fault s1 of
                Inl e \<Rightarrow> (Raised e, s1)
              | Inr s2 \<Rightarrow> (Response 200 (JObj [(''message'', JStr ''User deleted'')]), s2)))"

definition Orders_get :: "env \<Rightarrow> session \<Rightarrow> outcome \<times> session" where
  "Orders_get env s =
     (let orders_list = map (order_to_dict env) (orders (txn s))
      in (Response 200 (JObj [(''count'', JNum (int (length orders_list))), (''orders'', JArr orders_list)]), s))"

definition Orders_post :: "env \<Rightarrow> exn option \<Rightarrow> dict \<Rightarrow> session \<Rightarrow> outcome \<times> session" where
  "Orders_post env fault body s =
     (let new_order = \<lparr>id_col = JNull, pickup_address = dict_get body ''pickup_address'',
                        delivery_address = dict_get body ''delivery_address'',
                        status = dict_get body ''status'', user_id = dict_get body ''user_id''\<rparr>;
          s1 = session_add_order new_order s
      in case session_commit env fault s1 of
           Inl e \<Rightarrow> (Raised e, s1)
         | Inr s2 \<Rightarrow> (Response 201 (order_to_dict env (last (orders (txn s2)))), s2))"

definition OrderByID_get :: "env \<Rightarrow> int \<Rightarrow> session \<Rightarrow> outcome \<times> session" where
  "OrderByID_get env i s =
     (case query_get i (orders (txn s)) of
        Inl e \<Rightarrow> (Raised e, s)
      | Inr None \<Rightarrow> (Response 404 (JObj [(''message'', JStr ''Order not found'')]), s)
      | Inr (Some order) \<Rightarrow> (Response 200 (order_to_dict env order), s))"

definition OrderByID_patch :: "env \<Rightarrow> exn option \<Rightarrow> int \<Rightarrow> dict \<Rightarrow> session \<Rightarrow> outcome \<times> session" where
  "OrderByID_patch env fault i body s =
     (case query_get i (orders (txn s)) of
        Inl e \<Rightarrow> (Raised e, s)
      | Inr None \<Rightarrow> (Response 404 (JObj [(''message'', JStr ''Order not found'')]), s)
      | Inr (Some order) \<Rightarrow>
          (let order' = fold (\<lambda>attr x. setattr_order x attr (dict_get body attr)) (map fst body) order
           in case update_order env order order' of
                Inl e \<Rightarrow> (Raised e, s)
              | Inr row \<Rightarrow>
                  (let s1 = session_modify_order (JNum i) row s
                   in case session_commit env fault s1 of
                        Inl e \<Rightarrow> (Raised e, s1)
                      | Inr s2 \<Rightarrow> (Response 200 (order_to_dict env row), s2))))"

definition OrderByID_delete :: "env \<Rightarrow> exn option \<Rightarrow> int \<Rightarrow> session \<Rightarrow> outcome \<times> session" where
  "OrderByID_delete env fault i s =
     (case query_get i (orders (txn s)) of
        Inl e \<Rightarrow> (Raised e, s)
      | Inr None \<Rightarrow> (Response 404 (JObj [(''message'', JStr ''Order not found'')]), s)
      | Inr (Some order) \<Rightarrow>
          (let s1 = session_delete_order order s
           in case session_commit env fault s1 of
                Inl e \<Rightarrow> (Raised e, s1)
              | Inr s2 \<Rightarrow> (Response 200 (JObj [(''message'', JStr ''Order deleted'')]), s2)))"

definition FeedbackResource_get :: "env \<Rightarrow> session \<Rightarrow> outcome \<times> session" where
  "FeedbackResource_get env s =
     (let feedbacks_list = map (feedback_to_dict env) (feedbacks (txn s))
      in (Response 200
            (JObj [(''count'', JNum (int (length feedbacks_list))), (''feedbacks'', JArr feedbacks_list)]), s))"

definition FeedbackResource_post :: "env \<Rightarrow> exn option \<Rightarrow> dict \<Rightarrow> session \<Rightarrow> outcome \<times> session" where
  "FeedbackResource_post env fault body s =
     (let new_feedback = \<lparr>id_col = JNull, rating = dict_get body ''rating'',
                           comments = dict_get body ''comments'', user_id = dict_get body ''user_id''\<rparr>;
          s1 = session_add_feedback new_feedback s
      in case session_commit env fault s1 of
           Inl e \<Rightarrow> (Raised e, s1)
         | Inr s2 \<Rightarrow> (Response 201 (feedback_to_dict env (last (feedbacks (txn s2)))), s2))"

definition Parcels_get :: "env \<Rightarrow> session \<Rightarrow> outcome \<times> session" where
  "Parcels_get env s =
     (let parcels_list = map (parcel_to_dict env) (parcels (txn s))
      in (Response 200
            (JObj [(''count'', JNum (int (length parcels_list))), (''parcels'', JArr parcels_list)]), s))"

definition Parcels_post :: "env \<Rightarrow> exn option \<Rightarrow> dict \<Rightarrow> session \<Rightarrow> outcome \<times> session" where
  "Parcels_post env fault body s =
     (let new_parcel = \<lparr>id_col = JNull, description = dict_get body ''description'',
                         weight = dict_get body ''weight'', dimensions = dict_get body ''dimensions'',
                         order_id = dict_get body ''order_id''\<rparr>;
          s1 = session_add_parcel new_parcel s
      in case session_commit env fault s1 of
           Inl e \<Rightarrow> (Raised e, s1)
         | Inr s2 \<Rightarrow> (Response 201 (parcel_to_dict env (last (parcels (txn s2)))), s2))"

definition Profiles_get :: "env \<Rightarrow> session \<Rightarrow> outcome \<times> session" where
  "Profiles_get env s =
     (let profiles_list = map (profile_to_dict env) (profiles (txn s))
      in (Response 200
            (JObj [(''count'', JNum (int (length profiles_list))), (''profiles'', JArr profiles_list)]), s))"

definition Profiles_post :: "env \<Rightarrow> exn option \<Rightarrow> dict \<Rightarrow> session \<Rightarrow> outcome \<times> session" where
  "Profiles_post env fault body s =
     (let new_profile = \<lparr>id_col = JNull, user_id = dict_get body ''user_id'',
                          bio = dict_get body ''bio'',
                          profile_picture = dict_get body ''profile_picture''\<rparr>;
          s1 = session_add_profile new_profile s
      in case session_commit env fault s1 of
           Inl e \<Rightarrow> (Raised e, s1)
         | Inr s2 \<Rightarrow> (Response 201 (profile_to_dict env (last (profiles (txn s2)))), s2))"

section \<open>Routing\<close>

text \<open>
  The URL rules of \<^verbatim>\<open>api.add_resource\<close>, each as its list of path segments;
  \<^verbatim>\<open><int:id>\<close> accepts a non-empty run of decimal digits. A request path is the list of
  its segments. The route \<^verbatim>\<open>/\<close> of \<^verbatim>\<open>index\<close> is the empty path.
\<close>

datatype resource =
  Signup | Login | Users | UserByID | Orders | OrderByID | FeedbackResource | Parcels | Profiles

datatype segment = Static string | IntConverter

datatype http_method = GET | POST | PATCH | DELETE | PUT

definition url_map :: "(resource \<times> segment list) list" where
  "url_map =
     [(Signup, [Static ''signup'']),
      (Login, [Static ''login'']),
      (Users, [Static ''users'']),
      (UserByID, [Static ''users'', IntConverter]),
      (Orders, [Static ''orders'']),
      (OrderByID, [Static ''orders'', IntConverter]),
      (FeedbackResource, [Static ''feedback'']),
      (Parcels, [Static ''parcels'']),
      (Profiles, [Static ''profiles''])]"

definition is_digit :: "char \<Rightarrow> bool" where
  "is_digit c = (c \<in> set ''0123456789'')"

definition to_python :: "string \<Rightarrow> int option" where
  "to_python seg =
     (if seg \<noteq> [] \<and> list_all is_digit seg
      then Some (foldl (\<lambda>n c. 10 * n + (int (of_char c) - 48)) 0 seg)
      else None)"

fun match_rule :: "segment list \<Rightarrow> string list \<Rightarrow> int list option" where
  "match_rule [] [] = Some []"
| "match_rule (Static t # rule) (p # path) = (if p = t then match_rule rule path else None)"
| "match_rule (IntConverter # rule) (p # path) =
     (case to_python p of
        None \<Rightarrow> None
      | Some n \<Rightarrow> map_option (Cons n) (match_rule rule path))"
| "match_rule _ _ = None"

fun first_match :: "(resource \<times> segment list) list \<Rightarrow> string list \<Rightarrow> (resource \<times> int list) option" where
  "first_match [] path = None"
| "first_match ((res, rule) # rules) path =
     (case match_rule rule path of
        Some args \<Rightarrow> Some (res, args)
      | None \<Rightarrow> first_match rules path)"

definition url_match :: "string list \<Rightarrow> (resource \<times> int list) option" where
  "url_match path = first_match url_map path"

text \<open>The methods each resource class defines.\<close>

fun methods :: "resource \<Rightarrow> http_method list" where
  "methods Signup = [POST]"
| "methods Login = [POST]"
| "methods Users = [GET, POST]"
| "methods UserByID = [GET, PATCH, DELETE]"
| "methods Orders = [GET, POST]"
| "methods OrderByID = [GET, PATCH, DELETE]"
| "methods FeedbackResource = [GET, POST]"
| "methods Parcels = [GET, POST]"
| "methods Profiles = [GET, POST]"

text \<open>
  What a request brings besides its method, path and body: the salt drawn by the hasher,
  the two clock readings, and whether the storage fails at the commit.
\<close>

record ambient =
  drawn_salt :: string
  utcnow1 :: datetime
  utcnow2 :: datetime
  storage_fault :: "exn option"

record request =
  req_method :: http_method
  path :: "string list"
  json_body :: dict

definition by_id :: "int list \<Rightarrow> (int \<Rightarrow> session \<Rightarrow> outcome \<times> session) \<Rightarrow> session \<Rightarrow> outcome \<times> session" where
  "by_id args view s =
     (case args of
        [] \<Rightarrow> (Raised (TypeError ''missing argument id''), s)
      | i # _ \<Rightarrow> view i s)"

definition dispatch_request :: "env \<Rightarrow> ambient \<Rightarrow> resource \<Rightarrow> http_method \<Rightarrow> int list \<Rightarrow> dict \<Rightarrow> session \<Rightarrow> outcome \<times> session" where
  "dispatch_request env w res m args body s =
     (if m \<notin> set (methods res)
      then (Response 405 (JObj [(''message'', JStr (str_error env 405))]), s)
      else if res = Signup then Signup_post env (drawn_salt w) (storage_fault w) body s
      else if res = Login then Login_post env (utcnow1 w) (utcnow2 w) body s
      else if res = Users then
        (if m = GET then Users_get env s else Users_post env (storage_fault w) body s)
      else if res = UserByID then
        (if m = GET then by_id args (UserByID_get env) s
         else if m = PATCH then by_id args (\<lambda>i. UserByID_patch env (storage_fault w) i body) s
         else by_id args (UserByID_delete env (storage_fault w)) s)
      else if res = Orders then
        (if m = GET then Orders_get env s else Orders_post env (storage_fault w) body s)
      else if res = OrderByID then
        (if m = GET then by_id args (OrderByID_get env) s
         else if m = PATCH then by_id args (\<lambda>i. OrderByID_patch env (storage_fault w) i body) s
         else by_id args (OrderByID_delete env (storage_fault w)) s)
      else if res = FeedbackResource then
        (if m = GET then FeedbackResource_get env s else FeedbackResource_post env (storage_fault w) body s)
      else if res = Parcels then
        (if m = GET then Parcels_get env s else Parcels_post env (storage_fault w) body s)
      else
        (if m = GET then Profiles_get env s else Profiles_post env (storage_fault w) body s))"

text \<open>
  One request against the database \<open>d\<close>: the handler runs on a session of its own, an
  exception that escapes it becomes the response 500, a path that no rule matches the
  response 404 of \<^verbatim>\<open>not_found\<close>, and the session is dropped at the end, which leaves
  what was committed.
\<close>

definition not_found :: "env \<Rightarrow> outcome" where
  "not_found env =
     Response 404 (JObj [(''message'', JStr ''Not Found''), (''details'', JStr (str_error env 404))])"

definition internal_error :: "env \<Rightarrow> outcome" where
  "internal_error env =
     Response 500
       (JObj [(''message'', JStr ''Internal Server Error''), (''details'', JStr (str_error env 500))])"

definition index :: outcome where
  "index = Response 200 (JStr ''<h1>Welcome to Sendit App</h1>'')"

definition handle_request :: "env \<Rightarrow> ambient \<Rightarrow> request \<Rightarrow> database \<Rightarrow> outcome \<times> database" where
  "handle_request env w req d =
     (if path req = [] then
        (if req_method req = GET then (index, d)
         else (Response 405 (JObj [(''message'', JStr (str_error env 405))]), d))
      else
        (case url_match (path req) of
           None \<Rightarrow> (not_found env, d)
         | Some (res, args) \<Rightarrow>
             (case dispatch_request env w res (req_method req) args (json_body req) (fresh_session d) of
                (Raised e, s') \<Rightarrow> (internal_error env, store s')
              | (Response st b, s') \<Rightarrow> (Response st b, store s'))))"

section \<open>A sample environment\<close>

text \<open>
  A small instance of the libraries for the worked examples: the hash is the salt and the
  reversed password behind a marker, the token names its algorithm and key, and
  \<^verbatim>\<open>to_dict\<close> lists the columns.
\<close>

definition sample_hash :: "string \<Rightarrow> json \<Rightarrow> exn + string" where
  "sample_hash slt pw =
     (case pw of
        JStr p \<Rightarrow>
          if p = [] then Inl (ValueError ''Password must be non-empty.'')
          else Inr (''$2b$'' @ slt @ ''$'' @ rev p)
      | _ \<Rightarrow> Inl (ValueError ''Password must be non-empty.''))"

definition sample_check :: "json \<Rightarrow> json \<Rightarrow> exn + bool" where
  "sample_check h pw =
     (case (h, pw) of
        (JStr hs, JStr p) \<Rightarrow>
          if take 4 hs = ''$2b$''
          then Inr (drop (length hs - Suc (length p)) hs = ''$'' @ rev p)
          else Inl (ValueError ''Invalid salt'')
      | _ \<Rightarrow> Inl (TypeError ''expected a string''))"

definition sample_env :: env where
  "sample_env =
     \<lparr>generate_password_hash = sample_hash,
      check_password_hash = sample_check,
      jwt_encode = (\<lambda>payload key algorithm. Inr (algorithm @ ''.'' @ key)),
      py_str = (\<lambda>v. ''?''),
      str_error = (\<lambda>st. ''error''),
      sqlite_value = (\<lambda>table column v. Inr v),
      user_to_dict = (\<lambda>u. JObj [(''id'', id_col u), (''email'', email u),
                                   (''username'', username u), (''role'', role u)]),
      order_to_dict = (\<lambda>x. JObj [(''id'', id_col x), (''status'', status x)]),
      feedback_to_dict = (\<lambda>x. JObj [(''id'', id_col x), (''rating'', rating x)]),
      parcel_to_dict = (\<lambda>x. JObj [(''id'', id_col x), (''weight'', weight x)]),
      profile_to_dict = (\<lambda>x. JObj [(''id'', id_col x), (''bio'', bio x)])\<rparr>"

definition sample_db :: database where
  "sample_db =
     \<lparr>users = [\<lparr>id_col = JNum 1, email = JStr ''ann@example.com'', username = JStr ''ann'',
                 role = JStr ''customer'', password = JStr ''$2b$na$terces''\<rparr>],
      orders = [\<lparr>id_col = JNum 7, pickup_address = JStr ''1 Quay St'',
                  delivery_address = JStr ''9 Hill Rd'', status = JStr ''pending'',
                  user_id = JNum 1\<rparr>],
      feedbacks = [\<lparr>id_col = JNum 1, rating = JNum 5, comments = JStr ''fast'',
                     user_id = JNum 1\<rparr>],
      parcels = [],
      profiles = []\<rparr>"

definition sample_ambient :: ambient where
  "sample_ambient = \<lparr>drawn_salt = ''na'', utcnow1 = 1000, utcnow2 = 1000, storage_fault = None\<rparr>"

section \<open>Facts about the session\<close>

lemma and_then_simps:
  "and_then (Inr x) f = f x" "and_then (Inl e) f = Inl e"
  by (simp_all add: and_then_def)

lemma fold_max_ge: "(m::int) \<in> set (n # ns) \<Longrightarrow> m \<le> fold max ns n"
  by (simp only: Max.set_eq_fold [symmetric]) (rule Max_ge, simp_all)

lemma mem_int_ids: "(n \<in> set (int_ids rows)) = (JNum n \<in> set (map id_col rows))"
  by (induction rows) (auto simp: int_ids_def split: json.splits)

lemma next_id_greater: "n \<in> set (int_ids rows) \<Longrightarrow> n < next_id rows"
  using fold_max_ge [of n] by (fastforce simp: next_id_def split: list.splits)

lemma next_id_fresh: "JNum (next_id rows) \<notin> set (map id_col rows)"
  using next_id_greater [of "next_id rows" rows] by (simp only: mem_int_ids [symmetric]) auto

lemma primary_key_ok_append:
  "primary_key_ok (rows @ [r]) =
     (primary_key_ok rows \<and> is_int (id_col r) \<and> id_col r \<notin> set (map id_col rows))"
  by (auto simp: primary_key_ok_def)

lemma unique_email_append:
  "unique_email (rows @ [u]) =
     (unique_email rows \<and> (email u = JNull \<or> email u \<notin> set (map email rows)))"
  by (auto simp: unique_email_def)

lemma fresh_session_fields:
  "store (fresh_session d) = d" "txn (fresh_session d) = d" "pending (fresh_session d) = empty_db"
  by (simp_all add: fresh_session_def)

lemma bind_text_simps:
  "bind_text env c JNull = Inr JNull" "bind_text env c (JStr t) = Inr (JStr t)"
  by (simp_all add: bind_text_def)

lemma convert_cases: "convert env v = JNull \<or> (\<exists>t. convert env v = JStr t)"
  by (cases v) (simp_all add: convert_def)

lemma bind_text_convert: "bind_text env c (convert env v) = Inr (convert env v)"
  using convert_cases [of env v] by (auto simp: bind_text_simps)

lemma insert_user_text:
  assumes "id_col u = JNull"
    and "bind_text env ''email'' (email u) = Inr e"
    and "bind_text env ''username'' (username u) = Inr n"
    and "bind_text env ''role'' (if role u = JNull then JStr ''customer'' else role u) = Inr r"
    and "bind_text env ''password'' (password u) = Inr p"
  shows "insert_user env u = Inr \<lparr>id_col = JNull, email = e, username = n, role = r, password = p\<rparr>"
  using assms by (simp add: insert_user_def new_key_def and_then_simps)

lemma flush_fresh: "flush env (fresh_session d) = Inr d"
  by (simp add: flush_def fresh_session_def empty_db_def and_then_simps)

lemma flush_add_user:
  "insert_user env u = Inr w \<Longrightarrow> id_col w = JNull \<Longrightarrow>
     flush env (session_add_user u (fresh_session d)) =
       Inr (d\<lparr>users := users d @ [w\<lparr>id_col := JNum (next_id (users d))\<rparr>]\<rparr>)"
  by (simp add: flush_def session_add_user_def fresh_session_def empty_db_def and_then_simps)

lemma commit_result:
  "session_commit env fault s = Inr s' \<Longrightarrow> flush env s = Inr (store s') \<and> txn s' = store s'"
  by (auto simp: session_commit_def split: option.splits sum.splits if_splits)

text \<open>
  Adding one user to a consistent database: the commit fails exactly when the storage
  fails or the email is taken.
\<close>

lemma commit_add_user:
  assumes "constraints_ok d" and "insert_user env u = Inr w" and "id_col w = JNull"
  shows "session_commit env fault (session_add_user u (fresh_session d)) =
    (case fault of
       Some e \<Rightarrow> Inl e
     | None \<Rightarrow>
         if email w = JNull \<or> email w \<notin> set (map email (users d))
         then Inr (fresh_session (d\<lparr>users := users d @ [w\<lparr>id_col := JNum (next_id (users d))\<rparr>]\<rparr>))
         else Inl (IntegrityError ''constraint failed''))"
proof -
  have ok: "constraints_ok (d\<lparr>users := users d @ [w\<lparr>id_col := JNum (next_id (users d))\<rparr>]\<rparr>) =
      (email w = JNull \<or> email w \<notin> set (map email (users d)))"
    using assms(1) next_id_fresh [of "users d"]
    by (simp add: constraints_ok_def primary_key_ok_append unique_email_append)
  show ?thesis
    unfolding session_commit_def flush_add_user [OF assms(2,3)]
    by (simp add: ok fresh_session_def split: option.splits)
qed

lemma commit_ok:
  "flush env s = Inr d \<Longrightarrow> constraints_ok d \<Longrightarrow> session_commit env None s = Inr (fresh_session d)"
  by (simp add: session_commit_def fresh_session_def)

lemma rollback_add_user: "session_rollback (session_add_user u (fresh_session d)) = fresh_session d"
  by (simp add: session_rollback_def session_add_user_def fresh_session_def)

lemma filter_by_email_first_None:
  "(filter_by_email_first e rows = None) = (e \<notin> set (map email rows))"
  by (auto simp: filter_by_email_first_def find_None_iff image_iff)

section \<open>Facts about the parsers\<close>

lemma parse_register_args:
  assumes "source_values body ''email'' = ev # es" and "source_values body ''password'' = pv # ps"
    and "source_values body ''username'' = uv # us"
  shows "parse_args env register_args body =
    Inr [(''email'', convert env ev), (''password'', convert env pv),
         (''username'', convert env uv),
         (''role'', case source_values body ''role'' of [] \<Rightarrow> JStr ''customer''
                    | rv # _ \<Rightarrow> convert env rv)]"
  using assms by (simp add: register_args_def parse_argument_def split: list.splits)

lemma parse_login_args:
  assumes "source_values body ''email'' = ev # es" and "source_values body ''password'' = pv # ps"
  shows "parse_args env login_args body =
    Inr [(''email'', convert env ev), (''password'', convert env pv)]"
  using assms by (simp add: login_args_def parse_argument_def)

lemma parse_role_default:
  "map_of body ''role'' = None \<Longrightarrow> parse_args env register_args body = Inr data \<Longrightarrow>
     map_of data ''role'' = Some (JStr ''customer'')"
  by (auto simp: register_args_def parse_argument_def source_values_def
        split: list.splits sum.splits if_splits)

lemma parse_args_bad_request:
  "parse_args env args body = Inl bad \<Longrightarrow> status_code bad = Some 400"
  by (induction args arbitrary: bad) (auto split: sum.splits)

section \<open>Signup and login: the steps of the handlers\<close>

lemma signup_steps:
  assumes "source_values body ''email'' = ev # es" and "source_values body ''password'' = pv # ps"
    and "source_values body ''username'' = uv # us"
    and "generate_password_hash env salt (convert env pv) = Inr h"
  shows "Signup_post env salt fault body s =
     (case session_commit env fault
             (session_add_user
                \<lparr>id_col = JNull, email = convert env ev, username = convert env uv,
                   role = (case source_values body ''role'' of [] \<Rightarrow> JStr ''customer''
                           | rv # _ \<Rightarrow> convert env rv),
                   password = JStr h\<rparr> s) of
        Inr s2 \<Rightarrow> (Response 201 (JObj [(''msg'', JStr ''User created successfully'')]), s2)
      | Inl e \<Rightarrow>
          (Response 500 (JObj [(''msg'', JStr ''An error occurred while creating the user'')]),
           session_rollback
             (session_add_user
                \<lparr>id_col = JNull, email = convert env ev, username = convert env uv,
                   role = (case source_values body ''role'' of [] \<Rightarrow> JStr ''customer''
                           | rv # _ \<Rightarrow> convert env rv),
                   password = JStr h\<rparr> s)))"
  using assms(4)
  by (simp add: Signup_post_def parse_register_args [OF assms(1-3)] dict_get_def
        dict_get_default_def Let_def)

text \<open>The row that the INSERT of a signup writes.\<close>

lemma signup_insert:
  "insert_user env
     \<lparr>id_col = JNull, email = convert env ev, username = convert env uv,
        role = (case source_values body ''role'' of [] \<Rightarrow> JStr ''customer''
                | rv # _ \<Rightarrow> convert env rv),
        password = JStr h\<rparr> =
   Inr \<lparr>id_col = JNull, email = convert env ev, username = convert env uv,
          role = (case source_values body ''role'' of [] \<Rightarrow> JStr ''customer''
                  | rv # _ \<Rightarrow> if convert env rv = JNull then JStr ''customer''
                              else convert env rv),
          password = JStr h\<rparr>"
proof (rule insert_user_text)
  show "bind_text env ''role''
          (if role \<lparr>id_col = JNull, email = convert env ev, username = convert env uv,
                      role = (case source_values body ''role'' of [] \<Rightarrow> JStr ''customer''
                              | rv # _ \<Rightarrow> convert env rv),
                      password = JStr h\<rparr> = JNull
           then JStr ''customer''
           else role \<lparr>id_col = JNull, email = convert env ev, username = convert env uv,
                        role = (case source_values body ''role'' of [] \<Rightarrow> JStr ''customer''
                                | rv # _ \<Rightarrow> convert env rv),
                        password = JStr h\<rparr>) =
        Inr (case source_values body ''role'' of [] \<Rightarrow> JStr ''customer''
             | rv # _ \<Rightarrow> if convert env rv = JNull then JStr ''customer'' else convert env rv)"
    by (auto simp: bind_text_simps bind_text_convert split: list.splits)
qed (simp_all add: bind_text_simps bind_text_convert)

lemma users_post_steps:
  "Users_post env fault body s =
     (case session_commit env fault
             (session_add_user
                \<lparr>id_col = JNull, email = dict_get body ''email'',
                   username = dict_get body ''username'', role = dict_get body ''role'',
                   password = dict_get body ''password''\<rparr> s) of
        Inl e \<Rightarrow>
          (Raised e,
           session_add_user
             \<lparr>id_col = JNull, email = dict_get body ''email'',
                username = dict_get body ''username'', role = dict_get body ''role'',
                password = dict_get body ''password''\<rparr> s)
      | Inr s2 \<Rightarrow> (Response 201 (user_to_dict env (last (users (txn s2)))), s2))"
  by (simp add: Users_post_def Let_def)

section \<open>Login\<close>

text \<open>
  C1. A login request whose body holds an email and a password: when no user has that
  email, \<open>Login_post\<close> answers 404; when the user found has a stored hash against which
  the password checks as false, it answers 401. Both bodies hold only a message, no token,
  and the session is left as it was.
\<close>

theorem login_unknown_email_404_wrong_password_401:
  assumes "source_values body ''email'' = ev # es" and "source_values body ''password'' = pv # ps"
  shows "(convert env ev \<notin> set (map email (users (txn s))) \<longrightarrow>
            Login_post env now1 now2 body s =
              (Response 404 (JObj [(''msg'', JStr ''User does not exist in our database'')]), s)) \<and>
         (\<forall>u. filter_by_email_first (convert env ev) (users (txn s)) = Some u \<and>
              check_password_hash env (password u) (convert env pv) = Inr False \<longrightarrow>
            Login_post env now1 now2 body s =
              (Response 401 (JObj [(''msg'', JStr ''Password is incorrect!'')]), s))"
proof (intro conjI impI allI)
  assume "convert env ev \<notin> set (map email (users (txn s)))"
  then have "filter_by_email_first (convert env ev) (users (txn s)) = None"
    by (simp add: filter_by_email_first_None)
  then show "Login_post env now1 now2 body s =
      (Response 404 (JObj [(''msg'', JStr ''User does not exist in our database'')]), s)"
    by (simp add: Login_post_def parse_login_args [OF assms] dict_get_def)
next
  fix u
  assume "filter_by_email_first (convert env ev) (users (txn s)) = Some u \<and>
      check_password_hash env (password u) (convert env pv) = Inr False"
  then show "Login_post env now1 now2 body s =
      (Response 401 (JObj [(''msg'', JStr ''Password is incorrect!'')]), s)"
    by (simp add: Login_post_def parse_login_args [OF assms] dict_get_def)
qed

text \<open>
  The sample database knows \<^verbatim>\<open>ann@example.com\<close> and not \<^verbatim>\<open>bob@example.com\<close>.
\<close>

theorem login_unknown_email_404_wrong_password_401_witness:
  "Login_post sample_env 1000 1000
      [(''email'', JStr ''bob@example.com''), (''password'', JStr ''secret'')]
      (fresh_session sample_db) =
     (Response 404 (JObj [(''msg'', JStr ''User does not exist in our database'')]),
      fresh_session sample_db) \<and>
   Login_post sample_env 1000 1000
      [(''email'', JStr ''ann@example.com''), (''password'', JStr ''wrong'')]
      (fresh_session sample_db) =
     (Response 401 (JObj [(''msg'', JStr ''Password is incorrect!'')]), fresh_session sample_db)"
proof -
  let ?bob = "[(''email'', JStr ''bob@example.com''), (''password'', JStr ''secret'')]"
  let ?ann = "[(''email'', JStr ''ann@example.com''), (''password'', JStr ''wrong'')]"
  have bob: "source_values ?bob ''email'' = [JStr ''bob@example.com'']"
      "source_values ?bob ''password'' = [JStr ''secret'']"
    and ann: "source_values ?ann ''email'' = [JStr ''ann@example.com'']"
      "source_values ?ann ''password'' = [JStr ''wrong'']"
    by (simp_all add: source_values_def)
  have a: "convert sample_env (JStr ''bob@example.com'') \<notin>
             set (map email (users (txn (fresh_session sample_db))))"
    by (simp add: convert_def fresh_session_def sample_db_def)
  have b: "filter_by_email_first (convert sample_env (JStr ''ann@example.com''))
             (users (txn (fresh_session sample_db))) = Some (hd (users sample_db)) \<and>
           check_password_hash sample_env (password (hd (users sample_db)))
             (convert sample_env (JStr ''wrong'')) = Inr False"
    by (simp add: filter_by_email_first_def convert_def fresh_session_def sample_db_def
          sample_env_def sample_check_def)
  from a login_unknown_email_404_wrong_password_401
         [OF bob, of sample_env "fresh_session sample_db" 1000 1000]
  have "Login_post sample_env 1000 1000 ?bob (fresh_session sample_db) =
     (Response 404 (JObj [(''msg'', JStr ''User does not exist in our database'')]),
      fresh_session sample_db)"
    by simp
  moreover from b login_unknown_email_404_wrong_password_401
         [OF ann, of sample_env "fresh_session sample_db" 1000 1000]
  have "Login_post sample_env 1000 1000 ?ann (fresh_session sample_db) =
     (Response 401 (JObj [(''msg'', JStr ''Password is incorrect!'')]), fresh_session sample_db)"
    by simp
  ultimately show ?thesis by simp
qed

section \<open>Facts about rows and keys\<close>

lemma query_get_Some:
  "query_get i rows = Inr (Some r) \<Longrightarrow> r \<in> set rows \<and> id_col r = JNum i \<and> int64 i"
  by (auto simp: query_get_def find_Some_iff split: if_splits)

lemma query_get_None:
  "int64 i \<Longrightarrow> (query_get i rows = Inr None) = (JNum i \<notin> set (map id_col rows))"
  by (auto simp: query_get_def find_None_iff image_iff)

lemma primary_key_unique:
  assumes "primary_key_ok rows" and "query_get i rows = Inr (Some u)"
    and "r \<in> set rows" and "id_col r = JNum i"
  shows "r = u"
proof -
  from assms(1) have "inj_on id_col (set rows)"
    by (simp add: primary_key_ok_def distinct_map)
  from inj_onD [OF this, of r u] query_get_Some [OF assms(2)] assms(3,4) show ?thesis
    by simp
qed

lemma replace_row_ids: "id_col r' = key \<Longrightarrow> map id_col (replace_row key r' rows) = map id_col rows"
  by (induction rows) (auto simp: replace_row_def)

lemma replace_row_emails:
  assumes "primary_key_ok rows" and "query_get i rows = Inr (Some u)" and "email u' = email u"
  shows "map email (replace_row (JNum i) u' rows) = map email rows"
proof -
  have "\<And>r. r \<in> set rows \<Longrightarrow> email (if id_col r = JNum i then u' else r) = email r"
    using primary_key_unique [OF assms(1,2)] assms(3) by auto
  then show ?thesis by (simp add: replace_row_def)
qed

lemma primary_key_ok_replace:
  "id_col r' = key \<Longrightarrow> is_int key \<Longrightarrow> primary_key_ok rows \<Longrightarrow> primary_key_ok (replace_row key r' rows)"
  by (simp add: primary_key_ok_def replace_row_ids) (auto simp: replace_row_def list_all_iff)

lemma primary_key_ok_delete: "primary_key_ok rows \<Longrightarrow> primary_key_ok (delete_row key rows)"
  by (auto simp: primary_key_ok_def delete_row_def list_all_iff distinct_map_filter)

lemma flush_modify_user:
  "flush env (session_modify_user key u (fresh_session d)) =
     Inr (d\<lparr>users := replace_row key u (users d)\<rparr>)"
  by (simp add: flush_def session_modify_user_def fresh_session_def empty_db_def and_then_simps)

lemma flush_delete_order:
  "flush env (session_delete_order x (fresh_session d)) =
     Inr (d\<lparr>orders := delete_row (id_col x) (orders d)\<rparr>)"
  by (simp add: flush_def session_delete_order_def fresh_session_def empty_db_def and_then_simps)

text \<open>The UPDATE of a user of whom only the username changed, to a string.\<close>

lemma update_username:
  "update_user env u (u\<lparr>username := JStr x\<rparr>) = Inr (u\<lparr>username := JStr x\<rparr>)"
  by (simp add: update_user_def written_def and_then_simps bind_text_simps)

lemma sample_db_ok: "constraints_ok sample_db"
  by (simp add: constraints_ok_def primary_key_ok_def unique_email_def sample_db_def)

section \<open>Login: the tokens\<close>

text \<open>
  C2. A login request with a registered email and a password that the check accepts, when
  both calls of \<^verbatim>\<open>jwt.encode\<close> return: the answer is 200 with the two tokens, each the
  encoding under \<open>SECRET_KEY\<close> and HS256 of a payload whose \<open>identity\<close> is the id of
  the user found and whose \<open>exp\<close> is the clock reading plus one hour for the access
  token and plus thirty days for the refresh token. With the second reading not before
  the first, the access token expires strictly earlier.
\<close>

theorem login_success_issues_two_tokens:
  assumes "source_values body ''email'' = ev # es" and "source_values body ''password'' = pv # ps"
    and "filter_by_email_first (convert env ev) (users (txn s)) = Some u"
    and "check_password_hash env (password u) (convert env pv) = Inr True"
    and "jwt_encode env \<lparr>identity = id_col u, exp = now1 + timedelta 0 1\<rparr> SECRET_KEY ''HS256'' =
           Inr token"
    and "jwt_encode env \<lparr>identity = id_col u, exp = now2 + timedelta 30 0\<rparr> SECRET_KEY ''HS256'' =
           Inr refresh_token"
  shows "Login_post env now1 now2 body s =
           (Response 200 (JObj [(''token'', JStr token), (''refresh_token'', JStr refresh_token)]), s) \<and>
         timedelta 0 1 = 3600 * 1000000 \<and> timedelta 30 0 = 30 * 86400 * 1000000 \<and>
         (now1 \<le> now2 \<longrightarrow> now1 + timedelta 0 1 < now2 + timedelta 30 0)"
  using assms(3-6)
  by (simp add: Login_post_def parse_login_args [OF assms(1,2)] dict_get_def timedelta_def)

text \<open>The user ann of the sample database logs in with her password.\<close>

theorem login_success_issues_two_tokens_witness:
  "Login_post sample_env 1000 1000
      [(''email'', JStr ''ann@example.com''), (''password'', JStr ''secret'')]
      (fresh_session sample_db) =
     (Response 200
        (JObj [(''token'', JStr ''HS256.9d970c5fb1d04ea380828d9c491448ce''),
               (''refresh_token'', JStr ''HS256.9d970c5fb1d04ea380828d9c491448ce'')]),
      fresh_session sample_db) \<and>
   (1000::int) + timedelta 0 1 < 1000 + timedelta 30 0"
proof -
  have u: "filter_by_email_first (convert sample_env (JStr ''ann@example.com''))
             (users (txn (fresh_session sample_db))) = Some (hd (users sample_db))"
    by (simp add: filter_by_email_first_def convert_def fresh_session_def sample_db_def)
  have c: "check_password_hash sample_env (password (hd (users sample_db)))
             (convert sample_env (JStr ''secret'')) = Inr True"
    by (simp add: convert_def sample_db_def sample_env_def sample_check_def)
  have t: "jwt_encode sample_env
             \<lparr>identity = id_col (hd (users sample_db)), exp = 1000 + timedelta 0 1\<rparr>
             SECRET_KEY ''HS256'' = Inr ''HS256.9d970c5fb1d04ea380828d9c491448ce''"
    by (simp add: sample_env_def SECRET_KEY_def)
  have r: "jwt_encode sample_env
             \<lparr>identity = id_col (hd (users sample_db)), exp = 1000 + timedelta 30 0\<rparr>
             SECRET_KEY ''HS256'' = Inr ''HS256.9d970c5fb1d04ea380828d9c491448ce''"
    by (simp add: sample_env_def SECRET_KEY_def)
  have b: "source_values [(''email'', JStr ''ann@example.com''), (''password'', JStr ''secret'')]
             ''email'' = [JStr ''ann@example.com'']"
      "source_values [(''email'', JStr ''ann@example.com''), (''password'', JStr ''secret'')]
             ''password'' = [JStr ''secret'']"
    by (simp_all add: source_values_def)
  show ?thesis
    using login_success_issues_two_tokens [OF b u c t r]
    by simp
qed

section \<open>Signup\<close>



text \<open>
  C4. A signup request on which the commit fails, because the storage fails or because the
  email is taken: the session is rolled back to the committed database, which is
  unchanged, and the answer is 500 with the same fixed message whatever the cause.
\<close>

theorem signup_failure_rolls_back:
  assumes "constraints_ok d"
    and "source_values body ''email'' = ev # es" and "source_values body ''password'' = pv # ps"
    and "source_values body ''username'' = uv # us"
    and "generate_password_hash env salt (convert env pv) = Inr h"
    and "fault \<noteq> None \<or>
         (convert env ev \<noteq> JNull \<and> convert env ev \<in> set (map email (users d)))"
  shows "Signup_post env salt fault body (fresh_session d) =
           (Response 500 (JObj [(''msg'', JStr ''An error occurred while creating the user'')]),
            fresh_session d)"
  using assms(6)
  by (auto simp: signup_steps [OF assms(2-5)] commit_add_user [OF assms(1) signup_insert]
        rollback_add_user split: option.splits)

text \<open>Once with the email of ann, which is taken, once with a failing storage.\<close>

theorem signup_failure_rolls_back_witness:
  "Signup_post sample_env ''na'' None
      [(''email'', JStr ''ann@example.com''), (''password'', JStr ''hunter2''),
       (''username'', JStr ''ann2'')]
      (fresh_session sample_db) =
     (Response 500 (JObj [(''msg'', JStr ''An error occurred while creating the user'')]),
      fresh_session sample_db) \<and>
   Signup_post sample_env ''na'' (Some (OperationalError ''disk I/O error''))
      [(''email'', JStr ''bob@example.com''), (''password'', JStr ''hunter2''),
       (''username'', JStr ''bob'')]
      (fresh_session sample_db) =
     (Response 500 (JObj [(''msg'', JStr ''An error occurred while creating the user'')]),
      fresh_session sample_db)"
proof -
  have h: "generate_password_hash sample_env ''na'' (convert sample_env (JStr ''hunter2'')) =
      Inr ''$2b$na$2retnuh''"
    by (simp add: sample_env_def sample_hash_def convert_def)
  have e: "(None :: exn option) \<noteq> None \<or>
      (convert sample_env (JStr ''ann@example.com'') \<noteq> JNull \<and>
       convert sample_env (JStr ''ann@example.com'') \<in> set (map email (users sample_db)))"
    by (simp add: convert_def sample_db_def)
  have f: "Some (OperationalError ''disk I/O error'') \<noteq> None \<or>
      (convert sample_env (JStr ''bob@example.com'') \<noteq> JNull \<and>
       convert sample_env (JStr ''bob@example.com'') \<in> set (map email (users sample_db)))"
    by simp
  let ?ann = "[(''email'', JStr ''ann@example.com''), (''password'', JStr ''hunter2''),
               (''username'', JStr ''ann2'')]"
  let ?bob = "[(''email'', JStr ''bob@example.com''), (''password'', JStr ''hunter2''),
               (''username'', JStr ''bob'')]"
  have ann: "source_values ?ann ''email'' = [JStr ''ann@example.com'']"
      "source_values ?ann ''password'' = [JStr ''hunter2'']"
      "source_values ?ann ''username'' = [JStr ''ann2'']"
    and bob: "source_values ?bob ''email'' = [JStr ''bob@example.com'']"
      "source_values ?bob ''password'' = [JStr ''hunter2'']"
      "source_values ?bob ''username'' = [JStr ''bob'']"
    by (simp_all add: source_values_def)
  show ?thesis
    using signup_failure_rolls_back [OF sample_db_ok ann h e]
          signup_failure_rolls_back [OF sample_db_ok bob h f]
    by simp
qed

section \<open>Users and orders by id\<close>

text \<open>
  C8. For an existing user id, on a consistent database with the storage working, a PATCH
  whose body is the single key \<^verbatim>\<open>username\<close> with a string answers 200 and commits the
  database in which the row of that id has the new username and is otherwise the row found;
  all other rows of the table and all other tables are as before.
\<close>

theorem patch_username_changes_only_username:
  assumes "constraints_ok d" and "query_get i (users d) = Inr (Some u)" and "fault = None"
  shows "UserByID_patch env fault i [(''username'', JStr x)] (fresh_session d) =
           (Response 200 (user_to_dict env (u\<lparr>username := JStr x\<rparr>)),
            fresh_session
              (d\<lparr>users := map (\<lambda>r. if id_col r = JNum i then u\<lparr>username := JStr x\<rparr> else r)
                             (users d)\<rparr>))"
proof -
  let ?u = "u\<lparr>username := JStr x\<rparr>"
  have key: "id_col ?u = JNum i"
    using query_get_Some [OF assms(2)] by simp
  have pk: "primary_key_ok (users d)" and ue: "unique_email (users d)"
    using assms(1) by (simp_all add: constraints_ok_def)
  have "primary_key_ok (replace_row (JNum i) ?u (users d))"
    using key pk by (simp add: primary_key_ok_replace)
  moreover have "unique_email (replace_row (JNum i) ?u (users d))"
    using ue replace_row_emails [OF pk assms(2), of ?u] by (simp add: unique_email_def)
  ultimately have ok: "constraints_ok (d\<lparr>users := replace_row (JNum i) ?u (users d)\<rparr>)"
    using assms(1) by (simp add: constraints_ok_def)
  have q: "query_get i (users (txn (fresh_session d))) = Inr (Some u)"
    using assms(2) by (simp add: fresh_session_fields)
  show ?thesis
    unfolding UserByID_patch_def q
    by (simp add: Let_def setattr_user_def dict_get_def assms(3) update_username
          commit_ok [OF flush_modify_user ok]) (simp add: replace_row_def)
qed

text \<open>ann becomes anna; her other columns stay.\<close>

theorem patch_username_changes_only_username_witness:
  "UserByID_patch sample_env None 1 [(''username'', JStr ''anna'')] (fresh_session sample_db) =
     (Response 200
        (JObj [(''id'', JNum 1), (''email'', JStr ''ann@example.com''),
               (''username'', JStr ''anna''), (''role'', JStr ''customer'')]),
      fresh_session
        (sample_db\<lparr>users :=
           [\<lparr>id_col = JNum 1, email = JStr ''ann@example.com'', username = JStr ''anna'',
              role = JStr ''customer'', password = JStr ''$2b$na$terces''\<rparr>]\<rparr>))"
proof -
  have q: "query_get 1 (users sample_db) = Inr (Some (hd (users sample_db)))"
    by (simp add: query_get_def int64_def sample_db_def)
  show ?thesis
    using patch_username_changes_only_username
            [OF sample_db_ok q refl, of sample_env "''anna''"]
    by (simp add: sample_db_def sample_env_def)
qed

text \<open>
  C9. For an existing order id, on a consistent database with the storage working, DELETE
  answers 200 and commits the table without the rows of that id; GET for the same id on the
  resulting database answers 404.
\<close>

theorem delete_order_then_get_is_404:
  assumes "constraints_ok d" and "query_get i (orders d) = Inr (Some x)" and "fault = None"
  shows "OrderByID_delete env fault i (fresh_session d) =
           (Response 200 (JObj [(''message'', JStr ''Order deleted'')]),
            fresh_session (d\<lparr>orders := filter (\<lambda>r. id_col r \<noteq> JNum i) (orders d)\<rparr>)) \<and>
         OrderByID_get env i (fresh_session (d\<lparr>orders := filter (\<lambda>r. id_col r \<noteq> JNum i) (orders d)\<rparr>)) =
           (Response 404 (JObj [(''message'', JStr ''Order not found'')]),
            fresh_session (d\<lparr>orders := filter (\<lambda>r. id_col r \<noteq> JNum i) (orders d)\<rparr>))"
proof -
  have key: "id_col x = JNum i" and range: "int64 i"
    using query_get_Some [OF assms(2)] by simp_all
  have ok: "constraints_ok (d\<lparr>orders := delete_row (id_col x) (orders d)\<rparr>)"
    using assms(1) by (simp add: constraints_ok_def primary_key_ok_delete)
  have q: "query_get i (orders (txn (fresh_session d))) = Inr (Some x)"
    using assms(2) by (simp add: fresh_session_fields)
  have del: "OrderByID_delete env fault i (fresh_session d) =
           (Response 200 (JObj [(''message'', JStr ''Order deleted'')]),
            fresh_session (d\<lparr>orders := filter (\<lambda>r. id_col r \<noteq> JNum i) (orders d)\<rparr>))"
    unfolding OrderByID_delete_def q
    by (simp add: Let_def assms(3) commit_ok [OF flush_delete_order ok] key delete_row_def)
  have "query_get i (filter (\<lambda>r. id_col r \<noteq> JNum i) (orders d)) = Inr None"
    using range by (simp add: query_get_def find_None_iff)
  then have "OrderByID_get env i (fresh_session (d\<lparr>orders := filter (\<lambda>r. id_col r \<noteq> JNum i) (orders d)\<rparr>)) =
           (Response 404 (JObj [(''message'', JStr ''Order not found'')]),
            fresh_session (d\<lparr>orders := filter (\<lambda>r. id_col r \<noteq> JNum i) (orders d)\<rparr>))"
    by (simp add: OrderByID_get_def fresh_session_fields)
  with del show ?thesis by simp
qed

text \<open>The only order of the sample database is deleted.\<close>

theorem delete_order_then_get_is_404_witness:
  "OrderByID_delete sample_env None 7 (fresh_session sample_db) =
     (Response 200 (JObj [(''message'', JStr ''Order deleted'')]),
      fresh_session (sample_db\<lparr>orders := []\<rparr>)) \<and>
   OrderByID_get sample_env 7 (fresh_session (sample_db\<lparr>orders := []\<rparr>)) =
     (Response 404 (JObj [(''message'', JStr ''Order not found'')]),
      fresh_session (sample_db\<lparr>orders := []\<rparr>))"
proof -
  have q: "query_get 7 (orders sample_db) = Inr (Some (hd (orders sample_db)))"
    by (simp add: query_get_def int64_def sample_db_def)
  have f: "filter (\<lambda>r. id_col r \<noteq> JNum 7) (orders sample_db) = []"
    by (simp add: sample_db_def)
  show ?thesis
    using delete_order_then_get_is_404 [OF sample_db_ok q refl, of sample_env]
    by (simp add: f)
qed

section \<open>Creating users\<close>

lemma sample_next_user_id: "next_id (users sample_db) = 2"
  by (simp add: next_id_def int_ids_def sample_db_def)

text \<open>The row that the INSERT of \<open>Users_post\<close> writes for a body without a role.\<close>

lemma users_post_insert:
  assumes "map_of body ''role'' = None"
    and "bind_text env ''email'' (dict_get body ''email'') = Inr e"
    and "bind_text env ''username'' (dict_get body ''username'') = Inr n"
    and "bind_text env ''password'' (dict_get body ''password'') = Inr p"
  shows "insert_user env
           \<lparr>id_col = JNull, email = dict_get body ''email'',
              username = dict_get body ''username'', role = dict_get body ''role'',
              password = dict_get body ''password''\<rparr> =
         Inr \<lparr>id_col = JNull, email = e, username = n, role = JStr ''customer'', password = p\<rparr>"
  using assms by (intro insert_user_text) (simp_all add: dict_get_def bind_text_simps)

lemma sample_users_post:
  "Users_post sample_env None
      [(''username'', JStr ''bob''), (''email'', JStr ''bob@example.com''),
       (''password'', JStr ''hunter2'')]
      (fresh_session sample_db) =
     (Response 201
        (JObj [(''id'', JNum 2), (''email'', JStr ''bob@example.com''),
               (''username'', JStr ''bob''), (''role'', JStr ''customer'')]),
      fresh_session
        (sample_db\<lparr>users := users sample_db @
           [\<lparr>id_col = JNum 2, email = JStr ''bob@example.com'', username = JStr ''bob'',
              role = JStr ''customer'', password = JStr ''hunter2''\<rparr>]\<rparr>))"
proof -
  let ?body = "[(''username'', JStr ''bob''), (''email'', JStr ''bob@example.com''),
                (''password'', JStr ''hunter2'')]"
  have e: "JStr ''bob@example.com'' \<notin> set (map email (users sample_db))"
    by (simp add: sample_db_def)
  have i: "insert_user sample_env
           \<lparr>id_col = JNull, email = dict_get ?body ''email'',
              username = dict_get ?body ''username'', role = dict_get ?body ''role'',
              password = dict_get ?body ''password''\<rparr> =
         Inr \<lparr>id_col = JNull, email = JStr ''bob@example.com'', username = JStr ''bob'',
                role = JStr ''customer'', password = JStr ''hunter2''\<rparr>"
    by (rule users_post_insert) (simp_all add: dict_get_def bind_text_simps)
  show ?thesis
    using e
    by (simp add: users_post_steps commit_add_user [OF sample_db_ok i] sample_next_user_id
          fresh_session_fields)
      (simp add: sample_env_def)
qed




text \<open>
  C5. Every operation that creates or updates a user is claimed to store a salted hash,
  never the plaintext. \<open>Signup_post\<close> does so (C3). \<open>Users_post\<close> and
  \<open>UserByID_patch\<close> store the value of the body as it is: on the sample database,
  POST /users with the password \<^verbatim>\<open>hunter2\<close> commits a row whose password is
  \<^verbatim>\<open>hunter2\<close>, and PATCH /users/1 with that password leaves it in the row of ann.
\<close>

theorem plaintext_password_is_stored:
  "password (last (users (store (snd (Users_post sample_env None
      [(''username'', JStr ''bob''), (''email'', JStr ''bob@example.com''),
       (''password'', JStr ''hunter2'')]
      (fresh_session sample_db)))))) = JStr ''hunter2'' \<and>
   map password (users (store (snd (UserByID_patch sample_env None 1
      [(''password'', JStr ''hunter2'')] (fresh_session sample_db))))) = [JStr ''hunter2'']"
proof -
  let ?ann = "(hd (users sample_db))\<lparr>password := JStr ''hunter2''\<rparr>"
  have q: "query_get 1 (users (txn (fresh_session sample_db))) = Inr (Some (hd (users sample_db)))"
    by (simp add: query_get_def int64_def sample_db_def fresh_session_fields)
  have u: "update_user sample_env (hd (users sample_db)) ?ann = Inr ?ann"
    by (simp add: update_user_def written_def and_then_simps bind_text_simps sample_db_def)
  have "constraints_ok (sample_db\<lparr>users := replace_row (JNum 1) ?ann (users sample_db)\<rparr>)"
    by (simp add: constraints_ok_def primary_key_ok_def unique_email_def
          replace_row_def sample_db_def)
  from commit_ok [OF flush_modify_user this]
  have "map password (users (store (snd (UserByID_patch sample_env None 1
      [(''password'', JStr ''hunter2'')] (fresh_session sample_db))))) = [JStr ''hunter2'']"
    unfolding UserByID_patch_def q
    by (simp add: Let_def setattr_user_def dict_get_def u)
      (simp add: fresh_session_fields replace_row_def sample_db_def)
  then show ?thesis
    by (simp add: sample_users_post fresh_session_fields)
qed

section \<open>Routes and lists\<close>

lemma is_digit_code: "is_digit c \<Longrightarrow> 48 \<le> int (of_char c)"
  by (auto simp: is_digit_def)

lemma foldl_digits_nonneg:
  "list_all is_digit seg \<Longrightarrow> 0 \<le> n \<Longrightarrow>
     0 \<le> foldl (\<lambda>n c. 10 * n + (int (of_char c) - 48)) n seg"
proof (induction seg arbitrary: n)
  case Nil
  then show ?case by simp
next
  case (Cons c seg)
  from Cons.prems have "0 \<le> 10 * n + (int (of_char c) - 48)"
    using is_digit_code [of c] by simp
  with Cons show ?case by simp
qed

lemma to_python_nonneg: "to_python p = Some i \<Longrightarrow> 0 \<le> i"
  using foldl_digits_nonneg [of p 0] by (auto simp: to_python_def split: if_splits)

lemma url_match_by_id:
  assumes "to_python p = Some i"
  shows "url_match [''users'', p] = Some (UserByID, [i])"
    and "url_match [''orders'', p] = Some (OrderByID, [i])"
    and "url_match [''feedback'', p] = None"
    and "url_match [''parcels'', p] = None"
    and "url_match [''profiles'', p] = None"
  using assms by (simp_all add: url_match_def url_map_def)

lemma url_match_lists:
  "url_match [''feedback''] = Some (FeedbackResource, [])"
  "url_match [''parcels''] = Some (Parcels, [])"
  "url_match [''profiles''] = Some (Profiles, [])"
  by (simp_all add: url_match_def url_map_def)

lemma match_static: "match_rule [Static t] segs = (if segs = [t] then Some [] else None)"
  by (cases segs; cases "tl segs") auto

text \<open>The only paths routed to the resources of feedback, parcels and profiles.\<close>

lemma url_match_list_only:
  assumes "url_match segs = Some (res, args)" and "res \<in> {FeedbackResource, Parcels, Profiles}"
  shows "args = [] \<and> segs \<in> {[''feedback''], [''parcels''], [''profiles'']}"
  using assms
  by (auto simp: url_match_def url_map_def match_static split: if_splits option.splits)

text \<open>
  C6, as claimed for all five resources, fails: the sample database has a feedback row with
  id 1, no URL rule matches \<^verbatim>\<open>/feedback/1\<close>, and the request is answered by
  \<open>not_found\<close>, the handler of unknown URLs.
\<close>

theorem feedback_by_id_is_not_routed:
  "query_get 1 (feedbacks sample_db) =
     Inr (Some \<lparr>id_col = JNum 1, rating = JNum 5, comments = JStr ''fast'', user_id = JNum 1\<rparr>) \<and>
   url_match [''feedback'', ''1''] = None \<and>
   handle_request sample_env sample_ambient
      \<lparr>req_method = GET, path = [''feedback'', ''1''], json_body = []\<rparr> sample_db =
     (not_found sample_env, sample_db)"
  by (simp add: query_get_def int64_def sample_db_def handle_request_def url_match_def url_map_def)

text \<open>
  C6, amended. Only Users and Orders have the endpoints by id: \<^verbatim>\<open>/users/<int:id>\<close> and
  \<^verbatim>\<open>/orders/<int:id>\<close> are routed to \<open>UserByID\<close> and \<open>OrderByID\<close>, which
  define GET, PATCH and DELETE; for an id below \<open>2 ^ 63\<close>, GET returns the row of that id,
  and each of the three methods answers 404 and leaves the database as it is when no row
  has the id. Feedback, Parcels and Profiles have the list and the create endpoint only:
  their resources define GET and POST, and the only paths routed to them are
  \<^verbatim>\<open>/feedback\<close>, \<^verbatim>\<open>/parcels\<close> and \<^verbatim>\<open>/profiles\<close>.
\<close>

theorem by_id_endpoints_of_users_and_orders:
  assumes "to_python p = Some i" and "i < 2 ^ 63" and "m \<in> {GET, PATCH, DELETE}"
  shows "url_match [''users'', p] = Some (UserByID, [i]) \<and>
         url_match [''orders'', p] = Some (OrderByID, [i]) \<and>
         m \<in> set (methods UserByID) \<and> m \<in> set (methods OrderByID) \<and>
         (\<forall>u. query_get i (users d) = Inr (Some u) \<longrightarrow>
            handle_request env w \<lparr>req_method = GET, path = [''users'', p], json_body = body\<rparr> d =
              (Response 200 (user_to_dict env u), d)) \<and>
         (\<forall>x. query_get i (orders d) = Inr (Some x) \<longrightarrow>
            handle_request env w \<lparr>req_method = GET, path = [''orders'', p], json_body = body\<rparr> d =
              (Response 200 (order_to_dict env x), d)) \<and>
         (JNum i \<notin> set (map id_col (users d)) \<longrightarrow>
            handle_request env w \<lparr>req_method = m, path = [''users'', p], json_body = body\<rparr> d =
              (Response 404 (JObj [(''message'', JStr ''User not found'')]), d)) \<and>
         (JNum i \<notin> set (map id_col (orders d)) \<longrightarrow>
            handle_request env w \<lparr>req_method = m, path = [''orders'', p], json_body = body\<rparr> d =
              (Response 404 (JObj [(''message'', JStr ''Order not found'')]), d)) \<and>
         url_match [''feedback'', p] = None \<and>
         url_match [''parcels'', p] = None \<and>
         url_match [''profiles'', p] = None \<and>
         url_match [''feedback''] = Some (FeedbackResource, []) \<and>
         url_match [''parcels''] = Some (Parcels, []) \<and>
         url_match [''profiles''] = Some (Profiles, []) \<and>
         methods FeedbackResource = [GET, POST] \<and> methods Parcels = [GET, POST] \<and>
         methods Profiles = [GET, POST] \<and>
         (\<forall>segs res args.
            url_match segs = Some (res, args) \<and> res \<in> {FeedbackResource, Parcels, Profiles} \<longrightarrow>
            args = [] \<and> segs \<in> {[''feedback''], [''parcels''], [''profiles'']})"
proof -
  have range: "int64 i"
    using to_python_nonneg [OF assms(1)] assms(2) by (simp add: int64_def)
  have none: "JNum i \<notin> set (map id_col (users d)) \<Longrightarrow> query_get i (users d) = Inr None"
    "JNum i \<notin> set (map id_col (orders d)) \<Longrightarrow> query_get i (orders d) = Inr None"
    by (simp_all add: query_get_None [OF range])
  have only: "\<forall>segs res args.
            url_match segs = Some (res, args) \<and> res \<in> {FeedbackResource, Parcels, Profiles} \<longrightarrow>
            args = [] \<and> segs \<in> {[''feedback''], [''parcels''], [''profiles'']}"
    using url_match_list_only by blast
  have rest: "url_match [''users'', p] = Some (UserByID, [i]) \<and>
         url_match [''orders'', p] = Some (OrderByID, [i]) \<and>
         m \<in> set (methods UserByID) \<and> m \<in> set (methods OrderByID) \<and>
         (\<forall>u. query_get i (users d) = Inr (Some u) \<longrightarrow>
            handle_request env w \<lparr>req_method = GET, path = [''users'', p], json_body = body\<rparr> d =
              (Response 200 (user_to_dict env u), d)) \<and>
         (\<forall>x. query_get i (orders d) = Inr (Some x) \<longrightarrow>
            handle_request env w \<lparr>req_method = GET, path = [''orders'', p], json_body = body\<rparr> d =
              (Response 200 (order_to_dict env x), d)) \<and>
         (JNum i \<notin> set (map id_col (users d)) \<longrightarrow>
            handle_request env w \<lparr>req_method = m, path = [''users'', p], json_body = body\<rparr> d =
              (Response 404 (JObj [(''message'', JStr ''User not found'')]), d)) \<and>
         (JNum i \<notin> set (map id_col (orders d)) \<longrightarrow>
            handle_request env w \<lparr>req_method = m, path = [''orders'', p], json_body = body\<rparr> d =
              (Response 404 (JObj [(''message'', JStr ''Order not found'')]), d))"
    using assms(3) none
    by (auto simp: url_match_by_id [OF assms(1)] handle_request_def dispatch_request_def by_id_def
          fresh_session_fields UserByID_get_def UserByID_patch_def UserByID_delete_def
          OrderByID_get_def OrderByID_patch_def OrderByID_delete_def)
  have lists: "url_match [''feedback'', p] = None \<and>
         url_match [''parcels'', p] = None \<and>
         url_match [''profiles'', p] = None \<and>
         url_match [''feedback''] = Some (FeedbackResource, []) \<and>
         url_match [''parcels''] = Some (Parcels, []) \<and>
         url_match [''profiles''] = Some (Profiles, []) \<and>
         methods FeedbackResource = [GET, POST] \<and> methods Parcels = [GET, POST] \<and>
         methods Profiles = [GET, POST]"
    by (simp add: url_match_by_id [OF assms(1)] url_match_lists)
  from rest lists only show ?thesis
    by blast
qed

text \<open>No user and no order of the sample database has the id 42.\<close>

theorem by_id_endpoints_of_users_and_orders_witness:
  "handle_request sample_env sample_ambient
      \<lparr>req_method = GET, path = [''users'', ''42''], json_body = []\<rparr> sample_db =
     (Response 404 (JObj [(''message'', JStr ''User not found'')]), sample_db) \<and>
   handle_request sample_env sample_ambient
      \<lparr>req_method = DELETE, path = [''orders'', ''42''], json_body = []\<rparr> sample_db =
     (Response 404 (JObj [(''message'', JStr ''Order not found'')]), sample_db) \<and>
   handle_request sample_env sample_ambient
      \<lparr>req_method = GET, path = [''orders'', ''7''], json_body = []\<rparr> sample_db =
     (Response 200 (JObj [(''id'', JNum 7), (''status'', JStr ''pending'')]), sample_db)"
proof -
  have p: "to_python ''42'' = Some 42" and p7: "to_python ''7'' = Some 7"
    by (simp_all add: to_python_def is_digit_def)
  have b: "(42::int) < 2 ^ 63" and b7: "(7::int) < 2 ^ 63"
    by simp_all
  have u: "JNum 42 \<notin> set (map id_col (users sample_db))"
    and x: "JNum 42 \<notin> set (map id_col (orders sample_db))"
    by (simp_all add: sample_db_def)
  have q: "query_get 7 (orders sample_db) = Inr (Some (hd (orders sample_db)))"
    by (simp add: query_get_def int64_def sample_db_def)
  have g: "GET \<in> {GET, PATCH, DELETE}" and dl: "DELETE \<in> {GET, PATCH, DELETE}"
    by simp_all
  show ?thesis
    using by_id_endpoints_of_users_and_orders [OF p b g, of sample_db sample_env sample_ambient "[]"]
      by_id_endpoints_of_users_and_orders [OF p b dl, of sample_db sample_env sample_ambient "[]"]
      by_id_endpoints_of_users_and_orders [OF p7 b7 g, of sample_db sample_env sample_ambient "[]"]
      u x q
    by (simp add: sample_env_def sample_db_def)
qed

text \<open>
  C7. For every database, GET on \<^verbatim>\<open>/users\<close>, \<^verbatim>\<open>/orders\<close>, \<^verbatim>\<open>/feedback\<close>,
  \<^verbatim>\<open>/parcels\<close> and \<^verbatim>\<open>/profiles\<close> answers 200 with the \<^verbatim>\<open>to_dict\<close> of every row of
  the table, in order, and a count that is the number of these rows; the database is left
  as it is.
\<close>

theorem list_returns_all_rows_with_their_count:
  "handle_request env w \<lparr>req_method = GET, path = [''users''], json_body = body\<rparr> d =
     (Response 200
        (JObj [(''count'', JNum (int (length (users d)))),
               (''users'', JArr (map (user_to_dict env) (users d)))]), d) \<and>
   handle_request env w \<lparr>req_method = GET, path = [''orders''], json_body = body\<rparr> d =
     (Response 200
        (JObj [(''count'', JNum (int (length (orders d)))),
               (''orders'', JArr (map (order_to_dict env) (orders d)))]), d) \<and>
   handle_request env w \<lparr>req_method = GET, path = [''feedback''], json_body = body\<rparr> d =
     (Response 200
        (JObj [(''count'', JNum (int (length (feedbacks d)))),
               (''feedbacks'', JArr (map (feedback_to_dict env) (feedbacks d)))]), d) \<and>
   handle_request env w \<lparr>req_method = GET, path = [''parcels''], json_body = body\<rparr> d =
     (Response 200
        (JObj [(''count'', JNum (int (length (parcels d)))),
               (''parcels'', JArr (map (parcel_to_dict env) (parcels d)))]), d) \<and>
   handle_request env w \<lparr>req_method = GET, path = [''profiles''], json_body = body\<rparr> d =
     (Response 200
        (JObj [(''count'', JNum (int (length (profiles d)))),
               (''profiles'', JArr (map (profile_to_dict env) (profiles d)))]), d)"
proof -
  have m: "url_match [''users''] = Some (Users, [])" "url_match [''orders''] = Some (Orders, [])"
    "url_match [''feedback''] = Some (FeedbackResource, [])"
    "url_match [''parcels''] = Some (Parcels, [])" "url_match [''profiles''] = Some (Profiles, [])"
    by (simp_all add: url_match_def url_map_def)
  show ?thesis
    by (simp add: handle_request_def m dispatch_request_def fresh_session_def Users_get_def
          Orders_get_def FeedbackResource_get_def Parcels_get_def Profiles_get_def)
qed

end
